theory Spec2Isabelle
  imports Complex_Main "HOL-Library.Multiset"
begin

section \<open>Numbers\<close>

text \<open>
  The program computes with JavaScript numbers. Finite numbers are taken as exact reals
  (rounding to the nearest double and overflow are not modelled). The one place where the
  program can leave the finite numbers from finite inputs is the unguarded division in
  \<open>executeTrade\<close>; there the quotient is a \<open>jsnum\<close>, which carries the IEEE 754 results of a
  division by (positive) zero.
\<close>

datatype jsnum = Num real | PosInf | NegInf | NaN

definition js_div :: "real \<Rightarrow> real \<Rightarrow> jsnum" where
  "js_div a b =
     (if b \<noteq> 0 then Num (a / b)
      else if a > 0 then PosInf
      else if a < 0 then NegInf
      else NaN)"

fun js_floor :: "jsnum \<Rightarrow> jsnum" where
  "js_floor (Num x) = Num (of_int \<lfloor>x\<rfloor>)"
| "js_floor PosInf = PosInf"
| "js_floor NegInf = NegInf"
| "js_floor NaN = NaN"

fun js_gt0 :: "jsnum \<Rightarrow> bool" where
  "js_gt0 (Num x) = (x > 0)"
| "js_gt0 PosInf = True"
| "js_gt0 NegInf = False"
| "js_gt0 NaN = False"


text \<open>
  \<open>x.toFixed(2)\<close>: the decimal with two fraction digits nearest to \<open>x\<close>, the larger one on
  a tie, the sign treated apart; from \<open>10^21\<close> on the number is printed as it is. The model
  returns the value of the printed string.
\<close>

definition round_cents :: "real \<Rightarrow> real" where
  "round_cents y = of_int \<lfloor>y * 100 + 1 / 2\<rfloor> / 100"

definition toFixed2 :: "real \<Rightarrow> real" where
  "toFixed2 x =
     (if \<bar>x\<bar> \<ge> 10 ^ 21 then x
      else if x < 0 then - round_cents (- x)
      else round_cents x)"

section \<open>Indicator library (utils.js)\<close>

subsection \<open>calculateRSI\<close>





subsection \<open>calculateATR\<close>

text \<open>A market bar; the fields are \<open>h\<close>, \<open>l\<close> and \<open>c\<close> in the source.\<close>

record bar =
  bar_h :: real
  bar_l :: real
  bar_c :: real

definition true_range :: "bar \<Rightarrow> bar \<Rightarrow> real" where
  "true_range prev cur =
     (let high = bar_h cur; low = bar_l cur; prevClose = bar_c prev
      in max (max (high - low) \<bar>high - prevClose\<bar>) \<bar>low - prevClose\<bar>)"

definition trueRanges :: "bar list \<Rightarrow> real list" where
  "trueRanges bars = map (\<lambda>i. true_range (bars ! (i - 1)) (bars ! i)) [1 ..< length bars]"

text \<open>\<open>xs.slice(-n)\<close> for \<open>n \<ge> 1\<close>: the last \<open>n\<close> elements, all of them when there are fewer.\<close>

definition slice_last :: "nat \<Rightarrow> 'a list \<Rightarrow> 'a list" where
  "slice_last n xs = drop (length xs - n) xs"

definition calculateATR :: "bar list \<Rightarrow> nat \<Rightarrow> real" where
  "calculateATR bars period =
     (if length bars < period then 0
      else foldl (+) 0 (slice_last period (trueRanges bars)) / real period)"

subsection \<open>calculateMACD\<close>

record macd_result =
  macd :: real
  signal :: real
  histogram :: real

definition zero_macd :: macd_result where
  "zero_macd = \<lparr>macd = 0, signal = 0, histogram = 0\<rparr>"

text \<open>
  The inner \<open>calculateEMA\<close>: \<open>ema[0] = data[0]\<close>, then
  \<open>ema[i] = data[i] * k + ema[i-1] * (1 - k)\<close> with \<open>k = 2 / (period + 1)\<close>.
  It is only called on non-empty data.
\<close>

fun ema_loop :: "real \<Rightarrow> real \<Rightarrow> real list \<Rightarrow> real list" where
  "ema_loop k prev [] = []"
| "ema_loop k prev (x # xs) = (let e = x * k + prev * (1 - k) in e # ema_loop k e xs)"

definition calculateEMA :: "real list \<Rightarrow> nat \<Rightarrow> real list" where
  "calculateEMA data period =
     (let k = 2 / (real period + 1)
      in case data of [] \<Rightarrow> [] | d # ds \<Rightarrow> d # ema_loop k d ds)"

text \<open>
  The model is for \<open>1 \<le> shortPeriod \<le> longPeriod\<close> (every caller uses 12, 26, 9), where
  all reads of the two EMA arrays are in range.
\<close>

definition macdLine :: "real list \<Rightarrow> nat \<Rightarrow> nat \<Rightarrow> real list" where
  "macdLine prices shortPeriod longPeriod =
     (let shortEMA = calculateEMA prices shortPeriod;
          longEMA = calculateEMA prices longPeriod
      in map (\<lambda>i. shortEMA ! (i - (longPeriod - shortPeriod)) - longEMA ! i)
           [longPeriod - 1 ..< length prices])"

definition calculateMACD :: "real list \<Rightarrow> nat \<Rightarrow> nat \<Rightarrow> nat \<Rightarrow> macd_result" where
  "calculateMACD prices shortPeriod longPeriod signalPeriod =
     (if length prices < longPeriod then zero_macd
      else let ml = macdLine prices shortPeriod longPeriod
           in if length ml < signalPeriod then zero_macd
              else let signalLine = calculateEMA ml signalPeriod;
                       m = ml ! (length ml - 1);
                       s = signalLine ! (length signalLine - 1)
                   in \<lparr>macd = m, signal = s, histogram = m - s\<rparr>)"

text \<open>
  The MACD line in the words of the specification: the difference of the two EMAs of the
  same price series, taken at the same point.
\<close>

definition spec_macd_line :: "real list \<Rightarrow> real list" where
  "spec_macd_line prices =
     map (\<lambda>i. calculateEMA prices 12 ! i - calculateEMA prices 26 ! i) [0 ..< length prices]"

section \<open>Broker gateway (api.js)\<close>

text \<open>
  Errors are values. \<open>AuthError\<close> is the source's class of that name; \<open>ApiError\<close> is the
  \<open>Error\<close> thrown for a failed response, with the status and the body text; \<open>OtherError\<close>
  stands for everything else that can be thrown (a rejected \<open>fetch\<close>, a body that cannot
  be read, a body that is not JSON).
\<close>

datatype error = AuthError | ApiError nat string | OtherError

text \<open>
  What one call of \<open>fetch\<close> gives: it rejects, or it resolves to a response with a status,
  a body text (\<open>None\<close>: reading it rejects) and a parsed body (\<open>None\<close>:
  \<open>response.json()\<close> rejects). \<open>response.ok\<close> is a status from 200 to 299.
\<close>

datatype 'j fetch_outcome = FetchRejects | Response nat "string option" "'j option"

definition ok :: "nat \<Rightarrow> bool" where
  "ok status = (200 \<le> status \<and> status \<le> 299)"

datatype 'j payload = NoContent | Json 'j

text \<open>
  \<open>fetchWithBackoff\<close>: the network is the sequence of the outcomes of the successive calls
  of \<open>fetch\<close>, \<open>n\<close> is the number of calls made so far. The result comes with the list of
  the delays waited, in milliseconds. An error thrown inside \<open>try\<close> reaches the \<open>catch\<close>
  block, which is \<open>catch_retry\<close>; \<open>AuthError\<close> is rethrown there before the retry test. The
  recursive calls are returned without \<open>await\<close>, so their errors pass through unchanged.
\<close>

function fetchWithBackoff ::
  "(nat \<Rightarrow> 'j fetch_outcome) \<Rightarrow> nat \<Rightarrow> nat \<Rightarrow> nat \<Rightarrow> (error + 'j payload) \<times> nat list"
where
  "fetchWithBackoff net n retries delay =
     (let catch_retry = (\<lambda>e.
            if retries > 0
            then (let r = fetchWithBackoff net (n + 1) (retries - 1) (delay * 2)
                  in (fst r, delay # snd r))
            else (Inl e, []))
      in case net n of
           FetchRejects \<Rightarrow> catch_retry OtherError
         | Response status text json \<Rightarrow>
             if \<not> ok status then
               if status = 401 then (Inl AuthError, [])
               else if status = 429 \<and> retries > 0
               then (let r = fetchWithBackoff net (n + 1) (retries - 1) (delay * 2)
                     in (fst r, delay # snd r))
               else (case text of
                       None \<Rightarrow> catch_retry OtherError
                     | Some errorText \<Rightarrow> catch_retry (ApiError status errorText))
             else if status = 204 then (Inr NoContent, [])
             else (case json of
                     None \<Rightarrow> catch_retry OtherError
                   | Some j \<Rightarrow> (Inr (Json j), [])))"
  by pat_completeness auto
termination
  by (relation "measure (\<lambda>(net, n, retries, delay). retries)") auto

declare fetchWithBackoff.simps [simp del]

text \<open>The outcome of a call of \<open>alpacaFetch\<close>, as its callers see it.\<close>

datatype 'a fetched = Failed error | Fetched 'a

section \<open>Application state (config.js, state.js)\<close>

record settings =
  riskPerTrade :: real
  maxConcurrentScalps :: int
  limitOrderOffset :: real
  aiAnalysisFreq :: int

record portfolio =
  equity :: real
  last_equity :: real
  initial_equity :: real

record position =
  pos_symbol :: string
  qty :: string
  avg_entry_price :: string
  current_price :: string
  unrealized_pl :: string
  unrealized_plpc :: string
  stop_price :: "string option"

text \<open>
  A watchlist entry is \<open>{...recommendation, ...indicators}\<close>: the four fields of the AI's
  answer and the six of \<open>getIndicators\<close>.
\<close>

record recommendation =
  ticker :: string
  decision :: string
  confidence :: real
  reasoning :: string

record indicators =
  symbol :: string
  currentPrice :: real
  rsi1m :: real
  rsi5m :: real
  atr :: real
  ind_macd :: macd_result

record stock =
  stock_rec :: recommendation
  stock_ind :: indicators

record bot_state =
  isBotRunning :: bool
  settings :: settings
  portfolio :: portfolio
  positions :: "position list"
  performanceData :: "(string \<times> real) list"
  aiWatchlist :: "stock list"
  lastTradeDate :: "string option"
  isFirstTradeMadeToday :: bool

section \<open>Watchlist builder (strategy.js, runAiDrivenAnalysis)\<close>

text \<open>
  \<open>Array.prototype.sort\<close> with a comparator is a stable sort (ECMAScript 2019): an
  insertion sort that puts an element before the first one it does not compare greater
  than, filling from the right end, is one.
\<close>

fun insert_sorted :: "('a \<Rightarrow> 'a \<Rightarrow> real) \<Rightarrow> 'a \<Rightarrow> 'a list \<Rightarrow> 'a list" where
  "insert_sorted cmp x [] = [x]"
| "insert_sorted cmp x (y # ys) =
     (if cmp x y \<le> 0 then x # y # ys else y # insert_sorted cmp x ys)"

definition array_sort :: "('a \<Rightarrow> 'a \<Rightarrow> real) \<Rightarrow> 'a list \<Rightarrow> 'a list" where
  "array_sort cmp xs = foldr (insert_sorted cmp) xs []"

text \<open>The comparator \<open>(a, b) => b.confidence - a.confidence\<close>.\<close>

definition by_confidence :: "stock \<Rightarrow> stock \<Rightarrow> real" where
  "by_confidence a b = confidence (stock_rec b) - confidence (stock_rec a)"

text \<open>
  What the analysis of one candidate gives: \<open>getIndicators\<close> returns null, or something
  throws, or \<open>getAiRecommendationForStock\<close> returns null, or there is a recommendation.
\<close>

datatype analysis =
    NoIndicators
  | AnalysisThrows
  | NoRecommendation indicators
  | Recommended recommendation indicators

record ai_env =
  movers :: "string list option fetched"
  news :: "string list fetched"
  analyse :: "string \<Rightarrow> string \<Rightarrow> analysis"

definition join_lines :: "string list \<Rightarrow> string" where
  "join_lines hs = (case hs of [] \<Rightarrow> [] | h # t \<Rightarrow> foldl (\<lambda>acc x. acc @ [CHR 10] @ x) h t)"

text \<open>The loop over the candidates, which fills \<open>recommendedStocks\<close>.\<close>

fun recommendedStocks :: "(string \<Rightarrow> analysis) \<Rightarrow> string list \<Rightarrow> stock list" where
  "recommendedStocks f [] = []"
| "recommendedStocks f (s # cs) =
     (case f s of
        Recommended r ind \<Rightarrow>
          if decision r = ''BUY'' \<and> confidence r \<ge> 7
          then \<lparr>stock_rec = r, stock_ind = ind\<rparr> # recommendedStocks f cs
          else recommendedStocks f cs
      | _ \<Rightarrow> recommendedStocks f cs)"

text \<open>
  The early returns (the bot is not running, no movers, a failed request, which the outer
  \<open>catch\<close> logs) leave the state as it is.
\<close>

definition runAiDrivenAnalysis :: "ai_env \<Rightarrow> bot_state \<Rightarrow> bot_state" where
  "runAiDrivenAnalysis env st =
     (if \<not> isBotRunning st then st
      else case movers env of
             Failed e \<Rightarrow> st
           | Fetched None \<Rightarrow> st
           | Fetched (Some candidates) \<Rightarrow>
               if length candidates = 0 then st
               else (case news env of
                       Failed e \<Rightarrow> st
                     | Fetched hs \<Rightarrow>
                         let headlines = join_lines hs;
                             recommended = recommendedStocks (analyse env headlines) candidates
                         in if length recommended > 0
                            then st\<lparr>aiWatchlist := array_sort by_confidence recommended\<rparr>
                            else st))"

text \<open>
  In the words of the specification: the entries a cycle obtains, one for each candidate
  that gets a recommendation, in scan order; an entry qualifies when the decision is BUY
  and the confidence is at least 7.
\<close>

definition cycle_entries :: "ai_env \<Rightarrow> bot_state \<Rightarrow> stock list" where
  "cycle_entries env st =
     (case (isBotRunning st, movers env, news env) of
        (True, Fetched (Some candidates), Fetched hs) \<Rightarrow>
          concat (map (\<lambda>c. case analyse env (join_lines hs) c of
                             Recommended r ind \<Rightarrow> [\<lparr>stock_rec = r, stock_ind = ind\<rparr>]
                           | _ \<Rightarrow> []) candidates)
      | _ \<Rightarrow> [])"

definition qualifies :: "stock \<Rightarrow> bool" where
  "qualifies e = (decision (stock_rec e) = ''BUY'' \<and> confidence (stock_rec e) \<ge> 7)"

definition descending :: "stock list \<Rightarrow> bool" where
  "descending xs = sorted_wrt (\<lambda>a b. confidence (stock_rec a) \<ge> confidence (stock_rec b)) xs"

section \<open>Entry strategy (strategy.js)\<close>

text \<open>
  The answer to the quote request, as \<open>executeTrade\<close> reads it: no \<open>quote\<close> object, or
  the ask \<open>ap\<close> and the bid \<open>bp\<close>; a price of 0 is falsy, as a missing one is.
\<close>

datatype quote_resp = NoQuote | Quote real real

record order =
  order_symbol :: string
  order_qty :: jsnum
  order_side :: string
  limit_price :: real
  stop_loss_price :: real
  take_profit_price :: real

text \<open>
  What a call of \<open>executeTrade\<close> does: it places a bracket order, or logs that the size
  is zero, or logs the error caught. \<open>placeBracketOrder\<close> catches the errors of its own
  request, so nothing is thrown to the caller.
\<close>

datatype trade_outcome = Placed order | ZeroSize | TradeError error

definition executeTrade :: "(string \<Rightarrow> quote_resp fetched) \<Rightarrow> bot_state \<Rightarrow> stock \<Rightarrow> trade_outcome" where
  "executeTrade quotes st stk =
     (let sym = ticker (stock_rec stk)
      in case quotes sym of
           Failed e \<Rightarrow> TradeError e
         | Fetched NoQuote \<Rightarrow> TradeError OtherError
         | Fetched (Quote ap bp) \<Rightarrow>
             if ap = 0 \<or> bp = 0 then TradeError OtherError
             else let currentPrice = ap;
                      capitalToRisk = equity (portfolio st) * (riskPerTrade (settings st) / 100);
                      stopLossDistance = 2 * atr (stock_ind stk);
                      quantity = js_floor (js_div capitalToRisk stopLossDistance)
                  in if js_gt0 quantity
                     then let stopPrice = toFixed2 (currentPrice - stopLossDistance);
                              takeProfitPrice = toFixed2 (currentPrice + stopLossDistance * 1.5);
                              limitPrice =
                                toFixed2 (bp * (1 + limitOrderOffset (settings st) / 100))
                          in Placed \<lparr>order_symbol = sym, order_qty = quantity,
                                     order_side = ''buy'', limit_price = limitPrice,
                                     stop_loss_price = stopPrice,
                                     take_profit_price = takeProfitPrice\<rparr>
                     else ZeroSize)"

definition has_position :: "bot_state \<Rightarrow> string \<Rightarrow> bool" where
  "has_position st tk = list_ex (\<lambda>p. pos_symbol p = tk) (positions st)"

definition cap_reached :: "bot_state \<Rightarrow> bool" where
  "cap_reached st = (int (length (positions st)) \<ge> maxConcurrentScalps (settings st))"

text \<open>
  The scan loop of \<open>runScalpingStrategy\<close>; it returns the trades attempted, in order.
  Within one invocation nothing writes \<open>state.positions\<close>.
\<close>

fun scan :: "(string \<Rightarrow> quote_resp fetched) \<Rightarrow> bot_state \<Rightarrow> stock list
    \<Rightarrow> (stock \<times> trade_outcome) list" where
  "scan quotes st [] = []"
| "scan quotes st (stk # rest) =
     (if has_position st (ticker (stock_rec stk)) then scan quotes st rest
      else if cap_reached st then []
      else let is5minTrendBullish = histogram (ind_macd (stock_ind stk)) > 0;
               isRsiPullback = rsi1m (stock_ind stk) < 45
           in if is5minTrendBullish \<and> isRsiPullback
              then (stk, executeTrade quotes st stk) # scan quotes st rest
              else scan quotes st rest)"

text \<open>
  \<open>runScalpingStrategy\<close>: past the test of the length, \<open>aiWatchlist[0]\<close> is the first
  entry, an object and so truthy.
\<close>

definition runScalpingStrategy :: "(string \<Rightarrow> quote_resp fetched) \<Rightarrow> bot_state
    \<Rightarrow> bot_state \<times> (stock \<times> trade_outcome) list" where
  "runScalpingStrategy quotes st =
     (case aiWatchlist st of
        [] \<Rightarrow> (st, [])
      | stk # others \<Rightarrow>
          if cap_reached st then (st, [])
          else if \<not> isFirstTradeMadeToday st \<and> \<not> has_position st (ticker (stock_rec stk))
          then (st\<lparr>isFirstTradeMadeToday := True\<rparr>, [(stk, executeTrade quotes st stk)])
          else (st, scan quotes st (aiWatchlist st)))"

text \<open>
  In the words of the specification: the entry signal of the subsequent-trade gate, for a
  symbol with no open position.
\<close>

definition entry_signal :: "bot_state \<Rightarrow> stock \<Rightarrow> bool" where
  "entry_signal st stk =
     (\<not> has_position st (ticker (stock_rec stk)) \<and>
      histogram (ind_macd (stock_ind stk)) > 0 \<and> rsi1m (stock_ind stk) < 45)"

text \<open>
  In the words of the specification: the risk capital is the equity times
  \<open>riskPerTrade\<close> percent, the stop distance is twice the ATR of the entry, the quantity is
  the floor of their quotient.
\<close>

definition riskCapital :: "bot_state \<Rightarrow> real" where
  "riskCapital st = equity (portfolio st) * (riskPerTrade (settings st) / 100)"

definition stopDistance :: "stock \<Rightarrow> real" where
  "stopDistance stk = 2 * atr (stock_ind stk)"

definition quantity :: "bot_state \<Rightarrow> stock \<Rightarrow> jsnum" where
  "quantity st stk = js_floor (js_div (riskCapital st) (stopDistance stk))"

section \<open>Cycle scheduler (app.js, with the portfolio refresh of api.js)\<close>

text \<open>
  What a trade cycle reads from outside: the date (as \<open>toLocaleDateString\<close> and as the
  day part of \<open>toISOString\<close> give it), the outcome of the two account requests awaited
  together (the equity and the open positions), whether the market is open, and the quotes.
\<close>

record cycle_env =
  today :: string
  iso_day :: string
  refresh :: "(real \<times> position list) fetched"
  marketOpen :: bool
  quotes :: "string \<Rightarrow> quote_resp fetched"








section \<open>Concrete inputs\<close>

text \<open>Fourteen equal bars: every true range is 1.\<close>

definition flat_bar :: bar where
  "flat_bar = \<lparr>bar_h = 2, bar_l = 1, bar_c = 1\<rparr>"

text \<open>Thirty-four prices: 100 throughout, then 101 at the last point.\<close>

definition late_jump :: "real list" where
  "late_jump = replicate 33 100 @ [101]"

section \<open>Notions of the specification of the gateway\<close>

text \<open>A response with the given status; a response that delivers a result.\<close>

definition has_status :: "nat \<Rightarrow> 'j fetch_outcome \<Rightarrow> bool" where
  "has_status s out = (case out of FetchRejects \<Rightarrow> False | Response s' text json \<Rightarrow> s' = s)"

definition delivers :: "'j fetch_outcome \<Rightarrow> 'j payload \<Rightarrow> bool" where
  "delivers out p =
     (case out of
        FetchRejects \<Rightarrow> False
      | Response s text json \<Rightarrow>
          ok s \<and> (if s = 204 then p = NoContent
                  else case json of None \<Rightarrow> False | Some j \<Rightarrow> p = Json j))"

text \<open>Two rate-limit answers, then a body.\<close>

definition busy_twice :: "nat \<Rightarrow> nat fetch_outcome" where
  "busy_twice i = (if i < 2 then Response 429 (Some ''slow down'') None
                   else Response 200 (Some ''7'') (Some 7))"

definition unauthorized :: "nat \<Rightarrow> nat fetch_outcome" where
  "unauthorized i = Response 401 (Some ''no'') None"

text \<open>Watchlist entries, an AI that answers by symbol, and a running bot.\<close>

definition sample_indicators :: "string \<Rightarrow> real \<Rightarrow> real \<Rightarrow> real \<Rightarrow> indicators" where
  "sample_indicators s a h r =
     \<lparr>symbol = s, currentPrice = 10, rsi1m = r, rsi5m = 50, atr = a,
      ind_macd = \<lparr>macd = h, signal = 0, histogram = h\<rparr>\<rparr>"

definition sample_recommendation :: "string \<Rightarrow> string \<Rightarrow> real \<Rightarrow> recommendation" where
  "sample_recommendation s d c = \<lparr>ticker = s, decision = d, confidence = c, reasoning = []\<rparr>"

definition entry :: "string \<Rightarrow> real \<Rightarrow> stock" where
  "entry s c =
     \<lparr>stock_rec = sample_recommendation s ''BUY'' c,
      stock_ind = sample_indicators s (1 / 2) 1 40\<rparr>"

definition sample_analysis :: "string \<Rightarrow> string \<Rightarrow> analysis" where
  "sample_analysis headlines s =
     (if s = ''A'' then Recommended (sample_recommendation s ''BUY'' 8) (sample_indicators s (1 / 2) 1 40)
      else if s = ''B'' then Recommended (sample_recommendation s ''BUY'' 9) (sample_indicators s (1 / 2) 1 40)
      else if s = ''C'' then Recommended (sample_recommendation s ''BUY'' 8) (sample_indicators s (1 / 2) 1 40)
      else if s = ''D'' then Recommended (sample_recommendation s ''HOLD'' 10) (sample_indicators s (1 / 2) 1 40)
      else if s = ''E'' then Recommended (sample_recommendation s ''BUY'' 6) (sample_indicators s (1 / 2) 1 40)
      else if s = ''F'' then NoIndicators
      else NoRecommendation (sample_indicators s (1 / 2) 1 40))"

definition busy_market :: ai_env where
  "busy_market =
     \<lparr>movers = Fetched (Some [''A'', ''B'', ''C'', ''D'', ''E'', ''F'', ''G'']),
      news = Fetched [''up'', ''down''], analyse = sample_analysis\<rparr>"

definition quiet_market :: ai_env where
  "quiet_market =
     \<lparr>movers = Fetched (Some [''D'', ''E'', ''F'']),
      news = Fetched [], analyse = sample_analysis\<rparr>"

definition running_bot :: bot_state where
  "running_bot =
     \<lparr>isBotRunning = True,
      settings = \<lparr>riskPerTrade = 1, maxConcurrentScalps = 5, limitOrderOffset = 5 / 100,
                  aiAnalysisFreq = 30\<rparr>,
      portfolio = \<lparr>equity = 10000, last_equity = 10000, initial_equity = 10000\<rparr>,
      positions = [], performanceData = [], aiWatchlist = [entry ''Z'' 7],
      lastTradeDate = Some ''11/3/2026'', isFirstTradeMadeToday = False\<rparr>"

text \<open>
  Two watchlist entries: \<open>AAA\<close> with a MACD histogram that is not positive, \<open>BBB\<close> with a
  positive histogram and a 1-minute RSI below 45; and quotes of 50.00 asked, 49.98 bid.
\<close>

definition stock_a :: stock where
  "stock_a =
     \<lparr>stock_rec = sample_recommendation ''AAA'' ''BUY'' 9,
      stock_ind = sample_indicators ''AAA'' (1 / 2) (- 1) 40\<rparr>"

definition stock_b :: stock where
  "stock_b =
     \<lparr>stock_rec = sample_recommendation ''BBB'' ''BUY'' 8,
      stock_ind = sample_indicators ''BBB'' (1 / 2) 1 40\<rparr>"

definition sample_quotes :: "string \<Rightarrow> quote_resp fetched" where
  "sample_quotes s = Fetched (Quote 50 (4998 / 100))"

definition morning_bot :: bot_state where
  "morning_bot = running_bot\<lparr>aiWatchlist := [stock_a, stock_b]\<rparr>"

definition midday_bot :: bot_state where
  "midday_bot = running_bot\<lparr>aiWatchlist := [stock_a, stock_b], isFirstTradeMadeToday := True\<rparr>"








section \<open>Properties of the indicator library\<close>

subsection \<open>RSI\<close>









subsection \<open>ATR\<close>

lemma true_range_nonneg: "0 \<le> true_range prev cur"
  by (simp add: true_range_def Let_def le_max_iff_disj)

lemma foldl_plus_nonneg:
  fixes xs :: "real list"
  shows "0 \<le> a \<Longrightarrow> \<forall>x\<in>set xs. 0 \<le> x \<Longrightarrow> 0 \<le> foldl (+) a xs"
  by (induction xs arbitrary: a) simp_all

lemma foldl_plus_sum_list:
  fixes xs :: "real list"
  shows "foldl (+) a xs = a + sum_list xs"
  by (induction xs arbitrary: a) simp_all

text \<open>The parts of the description of the ATR that hold of the code.\<close>

lemma calculateATR_short: "length bars < period \<Longrightarrow> calculateATR bars period = 0"
  by (simp add: calculateATR_def)

lemma calculateATR_nonneg: "0 \<le> calculateATR bars period"
proof -
  have "\<forall>x\<in>set (slice_last period (trueRanges bars)). 0 \<le> x"
    by (auto simp: slice_last_def trueRanges_def true_range_nonneg dest!: in_set_dropD)
  then have "0 \<le> foldl (+) 0 (slice_last period (trueRanges bars))"
    by (intro foldl_plus_nonneg) simp_all
  then show ?thesis by (simp add: calculateATR_def)
qed

lemma calculateATR_average:
  assumes "period < length bars"
  shows "length (slice_last period (trueRanges bars)) = period"
    and "calculateATR bars period =
           sum_list (slice_last period (trueRanges bars)) / real period"
  using assms by (simp_all add: calculateATR_def slice_last_def trueRanges_def foldl_plus_sum_list)

text \<open>
  Claim C7. With fewer than 14 bars the ATR is 0, otherwise it is the simple average of the
  last 14 true ranges, and it is never negative. The code breaks the middle part at exactly
  14 bars: there are only 13 true ranges then, each of them 1 for fourteen equal bars, and
  the code returns their sum divided by 14, which is 13/14 and not their average 1.
\<close>

theorem calculateATR_fourteen_bars:
  "trueRanges (replicate 14 flat_bar) = replicate 13 1 \<and>
   calculateATR (replicate 14 flat_bar) 14 = 13 / 14"
  by code_simp

subsection \<open>MACD\<close>

text \<open>The parts of the description of the MACD that hold of the code.\<close>

lemma calculateMACD_histogram:
  "histogram (calculateMACD prices sp lp sg) =
   macd (calculateMACD prices sp lp sg) - signal (calculateMACD prices sp lp sg)"
  by (simp add: calculateMACD_def zero_macd_def Let_def)

lemma length_macdLine: "length (macdLine prices sp lp) = length prices - (lp - 1)"
  by (simp add: macdLine_def Let_def)

lemma calculateMACD_insufficient:
  "length prices < 34 \<Longrightarrow> calculateMACD prices 12 26 9 = zero_macd"
  by (simp add: calculateMACD_def length_macdLine Let_def)

text \<open>
  Claim C5. With enough history the \<open>macd\<close> returned is the last value of EMA(12) minus
  EMA(26) of the prices at the same point. The code subtracts the long EMA at point \<open>i\<close>
  from the short EMA at point \<open>i - 14\<close>: on 33 prices of 100 followed by a price of 101
  it returns \<open>- 2/27\<close>, where the difference of the two EMAs at the last point is
  \<open>28/351\<close>.
\<close>

theorem calculateMACD_late_jump:
  "length late_jump = 34 \<and>
   macd (calculateMACD late_jump 12 26 9) = - (2 / 27) \<and>
   calculateEMA late_jump 12 ! 33 - calculateEMA late_jump 26 ! 33 = 28 / 351 \<and>
   last (spec_macd_line late_jump) = 28 / 351"
  by code_simp

section \<open>Properties of the gateway\<close>

lemma fetchWithBackoff_delivers:
  "delivers (net n) p \<Longrightarrow> fetchWithBackoff net n retries delay = (Inr p, [])"
  by (subst fetchWithBackoff.simps)
     (auto simp: delivers_def split: fetch_outcome.splits option.splits if_splits)

lemma fetchWithBackoff_401:
  "has_status 401 (net n) \<Longrightarrow> fetchWithBackoff net n retries delay = (Inl AuthError, [])"
  by (subst fetchWithBackoff.simps)
     (auto simp: has_status_def ok_def split: fetch_outcome.splits)

lemma fetchWithBackoff_429:
  "has_status 429 (net n) \<Longrightarrow> 0 < retries \<Longrightarrow>
   fetchWithBackoff net n retries delay =
     (fst (fetchWithBackoff net (n + 1) (retries - 1) (delay * 2)),
      delay # snd (fetchWithBackoff net (n + 1) (retries - 1) (delay * 2)))"
  by (subst fetchWithBackoff.simps)
     (auto simp: has_status_def ok_def Let_def split: fetch_outcome.splits)

lemma fetchWithBackoff_rate_limited:
  "k \<le> retries \<Longrightarrow> \<forall>i<k. has_status 429 (net (n + i)) \<Longrightarrow> delivers (net (n + k)) p \<Longrightarrow>
   fetchWithBackoff net n retries delay = (Inr p, map (\<lambda>i. delay * 2 ^ i) [0..<k])"
proof (induction k arbitrary: n retries delay)
  case 0
  then show ?case by (simp add: fetchWithBackoff_delivers)
next
  case (Suc k)
  have first: "has_status 429 (net n)" using Suc.prems(2) by force
  have pos: "0 < retries" using Suc.prems(1) by simp
  have rest: "\<forall>i<k. has_status 429 (net (n + 1 + i))"
  proof (intro allI impI)
    fix i assume "i < k"
    then have "Suc i < Suc k" by simp
    with Suc.prems(2) have "has_status 429 (net (n + Suc i))" by blast
    then show "has_status 429 (net (n + 1 + i))" by simp
  qed
  have last: "delivers (net (n + 1 + k)) p" using Suc.prems(3) by simp
  have k: "k \<le> retries - 1" using Suc.prems(1) by simp
  have ih: "fetchWithBackoff net (n + 1) (retries - 1) (delay * 2) =
              (Inr p, map (\<lambda>i. delay * 2 * 2 ^ i) [0..<k])"
    by (rule Suc.IH [OF k rest last])
  have "map (\<lambda>i. delay * 2 ^ i) [0..<Suc k] = delay # map (\<lambda>i. delay * 2 * 2 ^ i) [0..<k]"
    by (simp add: map_upt_Suc del: upt_Suc)
  then show ?case
    using fetchWithBackoff_429 [of net n retries delay] first pos ih by simp
qed

text \<open>
  Claim C4. Called with its defaults (3 retries, 2000 ms), \<open>fetchWithBackoff\<close> turns
  \<open>k \<le> 3\<close> answers 429 followed by a response that delivers a result into that result,
  with no error and after waiting the first \<open>k\<close> of the delays 2000, 4000, 8000; and an
  answer 401 at any attempt, whatever retries are left, gives \<open>AuthError\<close> at once, with no
  wait and no further request.
\<close>

theorem fetchWithBackoff_resilience:
  "(k \<le> 3 \<and> (\<forall>i<k. has_status 429 (net i)) \<and> delivers (net k) p \<longrightarrow>
      fetchWithBackoff net 0 3 2000 = (Inr p, take k [2000, 4000, 8000])) \<and>
   (has_status 401 (net n) \<longrightarrow>
      fetchWithBackoff net n retries delay = (Inl AuthError, []))"
proof (intro conjI impI)
  assume a: "k \<le> 3 \<and> (\<forall>i<k. has_status 429 (net i)) \<and> delivers (net k) p"
  then have "fetchWithBackoff net 0 3 2000 = (Inr p, map (\<lambda>i. 2000 * 2 ^ i) [0..<k])"
    using fetchWithBackoff_rate_limited [of k 3 net 0 p 2000] by simp
  moreover have "map (\<lambda>i. 2000 * 2 ^ i) [0..<k] = take k [2000, 4000, 8000::nat]"
  proof -
    from a have "k = 0 \<or> k = 1 \<or> k = 2 \<or> k = 3" by arith
    then show ?thesis by (auto simp: numeral_2_eq_2 numeral_3_eq_3)
  qed
  ultimately show "fetchWithBackoff net 0 3 2000 = (Inr p, take k [2000, 4000, 8000])"
    by simp
next
  assume "has_status 401 (net n)"
  then show "fetchWithBackoff net n retries delay = (Inl AuthError, [])"
    by (rule fetchWithBackoff_401)
qed

theorem fetchWithBackoff_resilience_witness:
  "fetchWithBackoff busy_twice 0 3 2000 = (Inr (Json 7), [2000, 4000]) \<and>
   fetchWithBackoff unauthorized 0 3 2000 = (Inl AuthError, [])"
proof -
  have h: "(2::nat) \<le> 3 \<and> (\<forall>i<2. has_status 429 (busy_twice i)) \<and>
           delivers (busy_twice 2) (Json 7)"
    by (simp add: has_status_def delivers_def busy_twice_def ok_def)
  have u: "has_status 401 (unauthorized 0)"
    by (simp add: has_status_def unauthorized_def)
  from fetchWithBackoff_resilience [where k = 2 and net = busy_twice and p = "Json 7"]
    fetchWithBackoff_resilience [where net = unauthorized and n = 0 and retries = 3
      and delay = 2000] h u
  show ?thesis by simp
qed

section \<open>Properties of the watchlist builder\<close>

lemma mset_insert_sorted: "mset (insert_sorted cmp x ys) = add_mset x (mset ys)"
  by (induction ys) simp_all

lemma mset_array_sort: "mset (array_sort cmp xs) = mset xs"
  by (induction xs) (simp_all add: array_sort_def mset_insert_sorted)

lemma set_insert_sorted: "set (insert_sorted cmp x ys) = insert x (set ys)"
  by (induction ys) auto

lemma descending_insert_sorted:
  "descending ys \<Longrightarrow> descending (insert_sorted by_confidence x ys)"
proof (induction ys)
  case Nil
  then show ?case by (simp add: descending_def)
next
  case (Cons y ys)
  show ?case
  proof (cases "by_confidence x y \<le> 0")
    case True
    then have "confidence (stock_rec y) \<le> confidence (stock_rec x)"
      by (simp add: by_confidence_def)
    with Cons.prems True show ?thesis
      by (auto simp: descending_def)
  next
    case False
    then have "confidence (stock_rec x) \<le> confidence (stock_rec y)"
      by (simp add: by_confidence_def)
    moreover have "descending ys" using Cons.prems by (simp add: descending_def)
    ultimately show ?thesis
      using False Cons.prems Cons.IH by (auto simp: descending_def set_insert_sorted)
  qed
qed

lemma descending_array_sort: "descending (array_sort by_confidence xs)"
proof (induction xs)
  case Nil
  show ?case by (simp add: array_sort_def descending_def)
next
  case (Cons x xs)
  then show ?case
    using descending_insert_sorted [of "array_sort by_confidence xs" x]
    by (simp add: array_sort_def)
qed

text \<open>Stability: an element passes only elements of strictly greater confidence.\<close>

lemma filter_insert_sorted:
  "filter (\<lambda>e. confidence (stock_rec e) = c) (insert_sorted by_confidence x ys) =
   (if confidence (stock_rec x) = c then x # filter (\<lambda>e. confidence (stock_rec e) = c) ys
    else filter (\<lambda>e. confidence (stock_rec e) = c) ys)"
  by (induction ys) (auto simp: by_confidence_def)

lemma filter_array_sort:
  "filter (\<lambda>e. confidence (stock_rec e) = c) (array_sort by_confidence xs) =
   filter (\<lambda>e. confidence (stock_rec e) = c) xs"
  by (induction xs) (simp_all add: array_sort_def filter_insert_sorted)

lemma recommendedStocks_qualifying:
  "recommendedStocks f cs =
   filter qualifies
     (concat (map (\<lambda>c. case f c of
                          Recommended r ind \<Rightarrow> [\<lparr>stock_rec = r, stock_ind = ind\<rparr>]
                        | _ \<Rightarrow> []) cs))"
  by (induction cs) (auto simp: qualifies_def split: analysis.splits)

lemma runAiDrivenAnalysis_cases:
  "runAiDrivenAnalysis env st =
     (if filter qualifies (cycle_entries env st) = [] then st
      else st\<lparr>aiWatchlist := array_sort by_confidence (filter qualifies (cycle_entries env st))\<rparr>)"
  by (auto simp: runAiDrivenAnalysis_def cycle_entries_def recommendedStocks_qualifying Let_def
      split: fetched.splits option.splits bool.splits)

text \<open>
  Claim C3. After an AI-analysis cycle: if at least one entry of the cycle qualifies (BUY
  with confidence at least 7), the watchlist is exactly the qualifying entries (the same
  multiset), sorted by descending confidence, entries of equal confidence in scan order; if
  none qualifies the state, and so the watchlist, is as it was; in every case a non-empty
  watchlist stays non-empty.
\<close>

theorem ai_cycle_watchlist:
  "(filter qualifies (cycle_entries env st) \<noteq> [] \<longrightarrow>
      mset (aiWatchlist (runAiDrivenAnalysis env st)) = mset (filter qualifies (cycle_entries env st)) \<and>
      descending (aiWatchlist (runAiDrivenAnalysis env st)) \<and>
      (\<forall>c. filter (\<lambda>e. confidence (stock_rec e) = c) (aiWatchlist (runAiDrivenAnalysis env st)) =
           filter (\<lambda>e. confidence (stock_rec e) = c) (filter qualifies (cycle_entries env st)))) \<and>
   (filter qualifies (cycle_entries env st) = [] \<longrightarrow> runAiDrivenAnalysis env st = st) \<and>
   (aiWatchlist st \<noteq> [] \<longrightarrow> aiWatchlist (runAiDrivenAnalysis env st) \<noteq> [])"
proof -
  let ?Q = "filter qualifies (cycle_entries env st)"
  have nonempty: "array_sort by_confidence ?Q \<noteq> []" if "?Q \<noteq> []"
  proof
    assume "array_sort by_confidence ?Q = []"
    then have "mset (array_sort by_confidence ?Q) = {#}" by simp
    then have "mset ?Q = {#}" by (simp only: mset_array_sort)
    with that show False by simp
  qed
  show ?thesis
    using nonempty
    by (simp add: runAiDrivenAnalysis_cases mset_array_sort descending_array_sort
        filter_array_sort)
qed

theorem ai_cycle_watchlist_witness:
  "filter qualifies (cycle_entries busy_market running_bot) =
     [entry ''A'' 8, entry ''B'' 9, entry ''C'' 8] \<and>
   aiWatchlist (runAiDrivenAnalysis busy_market running_bot) =
     [entry ''B'' 9, entry ''A'' 8, entry ''C'' 8] \<and>
   descending (aiWatchlist (runAiDrivenAnalysis busy_market running_bot)) \<and>
   filter qualifies (cycle_entries quiet_market running_bot) = [] \<and>
   runAiDrivenAnalysis quiet_market running_bot = running_bot \<and>
   aiWatchlist running_bot \<noteq> [] \<and>
   aiWatchlist (runAiDrivenAnalysis quiet_market running_bot) \<noteq> []"
proof -
  have q1: "filter qualifies (cycle_entries busy_market running_bot) =
              [entry ''A'' 8, entry ''B'' 9, entry ''C'' 8]"
    by (simp add: cycle_entries_def busy_market_def running_bot_def sample_analysis_def
        qualifies_def entry_def sample_recommendation_def)
  have q2: "filter qualifies (cycle_entries quiet_market running_bot) = []"
    by (simp add: cycle_entries_def quiet_market_def running_bot_def sample_analysis_def
        qualifies_def entry_def sample_recommendation_def)
  have s1: "aiWatchlist (runAiDrivenAnalysis busy_market running_bot) =
              [entry ''B'' 9, entry ''A'' 8, entry ''C'' 8]"
    by (simp add: runAiDrivenAnalysis_cases q1 array_sort_def by_confidence_def entry_def
        sample_recommendation_def)
  have w: "aiWatchlist running_bot \<noteq> []"
    by (simp add: running_bot_def)
  from ai_cycle_watchlist [of busy_market running_bot]
    ai_cycle_watchlist [of quiet_market running_bot] q1 q2 s1 w
  show ?thesis by simp
qed

section \<open>Properties of the entry strategy\<close>

text \<open>
  Claim C1. With a non-empty watchlist, no open position, the first trade of the day not
  yet made and the position cap not reached, one invocation of \<open>runScalpingStrategy\<close>
  attempts exactly one trade, on the first watchlist entry, sets
  \<open>isFirstTradeMadeToday\<close> and returns; the other entries play no part.
\<close>

theorem first_trade_gate:
  "aiWatchlist st \<noteq> [] \<Longrightarrow> positions st = [] \<Longrightarrow> \<not> isFirstTradeMadeToday st \<Longrightarrow>
   \<not> cap_reached st \<Longrightarrow>
   runScalpingStrategy qs st =
     (st\<lparr>isFirstTradeMadeToday := True\<rparr>,
      [(hd (aiWatchlist st), executeTrade qs st (hd (aiWatchlist st)))])"
  by (cases "aiWatchlist st") (simp_all add: runScalpingStrategy_def has_position_def)


theorem first_trade_gate_witness:
  "aiWatchlist morning_bot = [stock_a, stock_b] \<and> positions morning_bot = [] \<and>
   \<not> isFirstTradeMadeToday morning_bot \<and> \<not> cap_reached morning_bot \<and>
   runScalpingStrategy sample_quotes morning_bot =
     (morning_bot\<lparr>isFirstTradeMadeToday := True\<rparr>,
      [(stock_a, executeTrade sample_quotes morning_bot stock_a)])"
proof -
  have w: "aiWatchlist morning_bot = [stock_a, stock_b]" "positions morning_bot = []"
    "\<not> isFirstTradeMadeToday morning_bot" "\<not> cap_reached morning_bot"
    by (simp_all add: morning_bot_def running_bot_def cap_reached_def)
  then have "aiWatchlist morning_bot \<noteq> []" by simp
  from first_trade_gate [OF this w(2) w(3) w(4), of sample_quotes] w
  show ?thesis by simp
qed

lemma scan_attempts:
  "\<not> cap_reached st \<Longrightarrow>
   scan qs st xs = map (\<lambda>s. (s, executeTrade qs st s)) (filter (entry_signal st) xs)"
  by (induction xs) (simp_all add: entry_signal_def Let_def)

text \<open>
  Claim C6. With the first trade of the day made and the position cap not reached, the
  trades attempted are, in watchlist order, exactly the entries with no open position, a
  5-minute MACD histogram above 0 and a 1-minute RSI below 45; the state is unchanged.
\<close>

theorem technical_scan:
  "isFirstTradeMadeToday st \<Longrightarrow> \<not> cap_reached st \<Longrightarrow>
   runScalpingStrategy qs st =
     (st, map (\<lambda>s. (s, executeTrade qs st s)) (filter (entry_signal st) (aiWatchlist st)))"
  by (cases "aiWatchlist st") (simp_all add: runScalpingStrategy_def scan_attempts del: scan.simps)

theorem technical_scan_witness:
  "isFirstTradeMadeToday midday_bot \<and> \<not> cap_reached midday_bot \<and>
   histogram (ind_macd (stock_ind stock_a)) \<le> 0 \<and>
   histogram (ind_macd (stock_ind stock_b)) > 0 \<and> rsi1m (stock_ind stock_b) < 45 \<and>
   runScalpingStrategy sample_quotes midday_bot =
     (midday_bot, [(stock_b, executeTrade sample_quotes midday_bot stock_b)])"
proof -
  have w: "isFirstTradeMadeToday midday_bot" "\<not> cap_reached midday_bot"
    by (simp_all add: midday_bot_def running_bot_def cap_reached_def)
  have f: "filter (entry_signal midday_bot) (aiWatchlist midday_bot) = [stock_b]"
    by (simp add: midday_bot_def running_bot_def entry_signal_def has_position_def
        stock_a_def stock_b_def sample_indicators_def sample_recommendation_def)
  have i: "histogram (ind_macd (stock_ind stock_a)) \<le> 0"
    "histogram (ind_macd (stock_ind stock_b)) > 0" "rsi1m (stock_ind stock_b) < 45"
    by (simp_all add: stock_a_def stock_b_def sample_indicators_def)
  from technical_scan [OF w, of sample_quotes] w f i
  show ?thesis by simp
qed

subsection \<open>Trade execution\<close>

















section \<open>Properties of the cycle scheduler\<close>








end
